theory Spec2Isabelle
  imports
    Main
    "HOL-Library.AList"
    "HOL-Library.Char_ord"
    "HOL-Library.List_Lexorder"
begin

section \<open>Python values, exceptions and the builtins the module calls\<close>

text \<open>
  The module \<^verbatim>\<open>miio/click_common.py\<close> is embedded function by function. A Python
  \<^verbatim>\<open>str\<close> is a \<^typ>\<open>string\<close>, one \<^typ>\<open>char\<close> per code point (so the embedding
  covers code points below 256), \<^verbatim>\<open>len\<close> is \<^const>\<open>length\<close>. A raised exception
  is the \<open>Inl\<close> branch of a sum, a returned value the \<open>Inr\<close> branch.
\<close>

datatype exc_class =
    BadParameter
  | ValueError
  | RuntimeError
  | AttributeError
  | KeyError
  | DeviceException
  | DeviceExceptionSubclass string
  | OtherException string

datatype py_exception = Raise (exc_type: exc_class) (exc_str: string)

text \<open>\<^verbatim>\<open>except miio.DeviceException\<close> matches the class and every subclass of it.\<close>

fun is_DeviceException :: "py_exception \<Rightarrow> bool" where
  "is_DeviceException (Raise DeviceException _) = True"
| "is_DeviceException (Raise (DeviceExceptionSubclass _) _) = True"
| "is_DeviceException _ = False"

datatype py_value = PyNone | PyBool bool | PyInt int | PyStr string

text \<open>\<^verbatim>\<open>str(n)\<close> and \<^verbatim>\<open>"%s" % n\<close> of an integer: its decimal digits.\<close>

definition digit_char :: "nat \<Rightarrow> char" where
  "digit_char d = ''0123456789'' ! d"

fun str_nat :: "nat \<Rightarrow> string" where
  "str_nat n = (if n < 10 then [digit_char n] else str_nat (n div 10) @ [digit_char (n mod 10)])"

declare str_nat.simps [simp del]

definition str_int :: "int \<Rightarrow> string" where
  "str_int i = (if i < 0 then CHR ''-'' # str_nat (nat (- i)) else str_nat (nat i))"

text \<open>Reading a decimal numeral back, to say what a printed number denotes.\<close>

definition digit_val :: "char \<Rightarrow> nat" where
  "digit_val c = of_char c - 48"

definition nat_of_digits :: "string \<Rightarrow> nat" where
  "nat_of_digits s = foldl (\<lambda>a c. 10 * a + digit_val c) 0 s"

section \<open>Validators\<close>

text \<open>
  \<^verbatim>\<open>
  def validate_token(ctx, param, value):
      token_len = len(value)
      if token_len != 32:
          raise click.BadParameter("Token length != 32 chars: %s" % token_len)
      return value
  \<close>
\<close>

definition validate_token :: "'ctx \<Rightarrow> 'param \<Rightarrow> string \<Rightarrow> py_exception + string" where
  "validate_token ctx param val =
     (let token_len = length val in
      if token_len \<noteq> 32
      then Inl (Raise BadParameter (''Token length != 32 chars: '' @ str_nat token_len))
      else Inr val)"

text \<open>
  \<^verbatim>\<open>
  def validate_ip(ctx, param, value):
      try:
          ipaddress.ip_address(value)
          return value
      except ValueError as ex:
          raise click.BadParameter("Invalid IP: %s" % ex)
  \<close>
  \<^verbatim>\<open>ipaddress.ip_address\<close> belongs to the standard library, not to the module: it is
  the parameter \<open>ip_address\<close>, which either returns an address object or raises. Only
  a \<^verbatim>\<open>ValueError\<close> is caught; any other exception leaves the validator as it is.
\<close>

definition validate_ip ::
  "(string \<Rightarrow> py_exception + 'addr) \<Rightarrow> 'ctx \<Rightarrow> 'param \<Rightarrow> string \<Rightarrow> py_exception + string" where
  "validate_ip ip_address ctx param val =
     (case ip_address val of
        Inr _ \<Rightarrow> Inr val
      | Inl ex \<Rightarrow>
          (if exc_type ex = ValueError
           then Inl (Raise BadParameter (''Invalid IP: '' @ exc_str ex))
           else Inl ex))"

text \<open>
  The standard library's \<^verbatim>\<open>ipaddress.ip_address\<close> (CPython, \<^verbatim>\<open>Lib/ipaddress.py\<close>), for
  one instance of the parameter above:
  \<^verbatim>\<open>
  def ip_address(address):
      try:
          return IPv4Address(address)
      except (AddressValueError, NetmaskValueError):
          pass
      try:
          return IPv6Address(address)
      except (AddressValueError, NetmaskValueError):
          pass
      raise ValueError(f'{address!r} does not appear to be an IPv4 or IPv6 address')
  \<close>
  The two literal parsers and \<^verbatim>\<open>repr\<close> stay parameters: \<open>None\<close> is a parser's
  \<^verbatim>\<open>AddressValueError\<close>.
\<close>

definition ip_address ::
  "(string \<Rightarrow> 'addr option) \<Rightarrow> (string \<Rightarrow> 'addr option) \<Rightarrow> (string \<Rightarrow> string) \<Rightarrow>
   string \<Rightarrow> py_exception + 'addr" where
  "ip_address IPv4Address IPv6Address repr address =
     (case IPv4Address address of
        Some a \<Rightarrow> Inr a
      | None \<Rightarrow>
          (case IPv6Address address of
             Some a \<Rightarrow> Inr a
           | None \<Rightarrow>
               Inl (Raise ValueError
                 (repr address @ '' does not appear to be an IPv4 or IPv6 address''))))"

section \<open>Output: \<^verbatim>\<open>click.echo\<close>, \<^verbatim>\<open>click.style\<close> and the module's logger\<close>

text \<open>
  What the module prints and logs is kept in a state that every effectful function takes
  and returns: the arguments of the calls of \<^verbatim>\<open>click.echo\<close>, in order, and the calls of
  \<^verbatim>\<open>_LOGGER.debug\<close>. \<^verbatim>\<open>click.style\<close> is kept symbolic: the text with its colour and
  weight.
\<close>

record styled_text =
  st_text :: string
  st_fg :: "string option"
  st_bold :: bool

definition style :: "string \<Rightarrow> string option \<Rightarrow> bool \<Rightarrow> styled_text" where
  "style txt fg_colour is_bold = \<lparr>st_text = txt, st_fg = fg_colour, st_bold = is_bold\<rparr>"

definition plain :: "string \<Rightarrow> styled_text" where
  "plain txt = \<lparr>st_text = txt, st_fg = None, st_bold = False\<rparr>"

record log_call =
  log_level :: string
  log_message :: string
  log_exc_info :: bool

record io =
  echoed :: "styled_text list"
  logged :: "log_call list"

definition echo :: "styled_text \<Rightarrow> io \<Rightarrow> io" where
  "echo message w = w\<lparr>echoed := echoed w @ [message]\<rparr>"

definition LOGGER_debug :: "string \<Rightarrow> bool \<Rightarrow> io \<Rightarrow> io" where
  "LOGGER_debug message exc_info w =
     w\<lparr>logged := logged w @
       [\<lparr>log_level = ''DEBUG'', log_message = message, log_exc_info = exc_info\<rparr>]\<rparr>"

section \<open>ExceptionHandlerGroup\<close>

text \<open>
  \<^verbatim>\<open>
  def __call__(self, *args, **kwargs):
      try:
          return self.main(*args, **kwargs)
      except miio.DeviceException as ex:
          _LOGGER.debug("Exception: %s", ex, exc_info=True)
          click.echo(click.style("Error: %s" % ex, fg='red', bold=True))
  \<close>
  \<^verbatim>\<open>self.main\<close> is click's; it is the parameter \<open>main\<close>, which may print and log, and
  returns or raises. Falling off the end of the handler returns \<^verbatim>\<open>None\<close>.
\<close>

definition ExceptionHandlerGroup_call ::
  "('args \<Rightarrow> io \<Rightarrow> (py_exception + py_value) \<times> io) \<Rightarrow> 'args \<Rightarrow> io \<Rightarrow>
   (py_exception + py_value) \<times> io" where
  "ExceptionHandlerGroup_call main args w =
     (case main args w of
        (Inr v, w') \<Rightarrow> (Inr v, w')
      | (Inl ex, w') \<Rightarrow>
          (if is_DeviceException ex
           then (Inr PyNone,
                 echo (style (''Error: '' @ exc_str ex) (Some ''red'') True)
                   (LOGGER_debug (''Exception: '' @ exc_str ex) True w'))
           else (Inl ex, w')))"

section \<open>The echo decorator\<close>

text \<open>
  Keyword arguments are a dictionary in insertion order: an association list, stored into
  with \<^const>\<open>AList.update\<close> (an existing key keeps its place and takes the new value, a
  new key goes last).
\<close>

type_synonym kwargs_dict = "(string \<times> py_value) list"

fun str_value :: "py_value \<Rightarrow> string" where
  "str_value PyNone = ''None''"
| "str_value (PyBool b) = (if b then ''True'' else ''False'')"
| "str_value (PyInt i) = str_int i"
| "str_value (PyStr s) = s"

text \<open>
  \<^verbatim>\<open>str.strip()\<close>: the characters Python counts as whitespace below code point 256 are
  removed from both ends.
\<close>

definition is_space :: "char \<Rightarrow> bool" where
  "is_space c =
     (let n = (of_char c :: nat) in
      (9 \<le> n \<and> n \<le> 13) \<or> (28 \<le> n \<and> n \<le> 32) \<or> n = 133 \<or> n = 160)"

definition strip :: "string \<Rightarrow> string" where
  "strip s = rev (dropWhile is_space (rev (dropWhile is_space s)))"

text \<open>
  \<^verbatim>\<open>template.format(**kwargs)\<close>, for the templates the module is used with: literal text,
  the doubled braces \<^verbatim>\<open>{{\<close> and \<^verbatim>\<open>}}\<close>, and replacement fields \<^verbatim>\<open>{key}\<close> that name a
  keyword (rendered as \<^verbatim>\<open>str\<close> renders the value; a missing key is a \<^verbatim>\<open>KeyError\<close>). An
  unmatched brace is Python's \<^verbatim>\<open>ValueError\<close>. A field that is empty or numeric, or has a
  conversion, a format specification, an attribute or an index, is outside this
  embedding and marked \<open>NotModelled\<close>.
\<close>

definition simple_field :: "string \<Rightarrow> bool" where
  "simple_field field =
     (field \<noteq> [] \<and> list_all (\<lambda>c. c \<notin> set ''.[]!:{'') field \<and>
      \<not> list_all (\<lambda>c. c \<in> set ''0123456789'') field)"

definition format_field :: "string \<Rightarrow> kwargs_dict \<Rightarrow> py_exception + string" where
  "format_field field kw =
     (if simple_field field
      then (case map_of kw field of
              Some v \<Rightarrow> Inr (str_value v)
            | None \<Rightarrow> Inl (Raise KeyError ([CHR 0x27] @ field @ [CHR 0x27])))
      else Inl (Raise (OtherException ''NotModelled'') field))"

definition then_append :: "string \<Rightarrow> py_exception + string \<Rightarrow> py_exception + string" where
  "then_append done rest = (case rest of Inl ex \<Rightarrow> Inl ex | Inr s \<Rightarrow> Inr (done @ s))"

function format_str :: "string \<Rightarrow> kwargs_dict \<Rightarrow> py_exception + string" where
  "format_str [] kw = Inr []"
| "format_str (c # cs) kw =
     (if c = CHR ''{'' then
        (if cs \<noteq> [] \<and> hd cs = CHR ''{'' then then_append ''{'' (format_str (tl cs) kw)
         else if dropWhile (\<lambda>d. d \<noteq> CHR ''}'') cs = []
         then Inl (Raise ValueError ''expected } before end of string'')
         else (case format_field (takeWhile (\<lambda>d. d \<noteq> CHR ''}'') cs) kw of
                 Inl ex \<Rightarrow> Inl ex
               | Inr s \<Rightarrow> then_append s (format_str (tl (dropWhile (\<lambda>d. d \<noteq> CHR ''}'') cs)) kw)))
      else if c = CHR ''}'' then
        (if cs \<noteq> [] \<and> hd cs = CHR ''}'' then then_append ''}'' (format_str (tl cs) kw)
         else Inl (Raise ValueError ''Single } encountered in format string''))
      else then_append [c] (format_str cs kw))"
  by pat_completeness auto
termination
proof (relation "measure (\<lambda>(s, kw). length s)")
  show "wf (measure (\<lambda>(s, kw). length s))"
    by simp
next
  fix c :: char and cs :: string and kw :: kwargs_dict
  assume "cs \<noteq> [] \<and> hd cs = CHR ''{''"
  then show "((tl cs, kw), (c # cs, kw)) \<in> measure (\<lambda>(s, kw). length s)"
    by simp
next
  fix c :: char and cs :: string and kw :: kwargs_dict
  have "length (tl (dropWhile (\<lambda>d. d \<noteq> CHR ''}'') cs)) \<le> length cs"
    using length_dropWhile_le [of "\<lambda>d. d \<noteq> CHR ''}''" cs] by simp
  then show "((tl (dropWhile (\<lambda>d. d \<noteq> CHR ''}'') cs), kw), (c # cs, kw))
      \<in> measure (\<lambda>(s, kw). length s)"
    by simp
next
  fix c :: char and cs :: string and kw :: kwargs_dict
  assume "cs \<noteq> [] \<and> hd cs = CHR ''}''"
  then show "((tl cs, kw), (c # cs, kw)) \<in> measure (\<lambda>(s, kw). length s)"
    by simp
next
  fix c :: char and cs :: string and kw :: kwargs_dict
  show "((cs, kw), (c # cs, kw)) \<in> measure (\<lambda>(s, kw). length s)"
    by simp
qed

declare format_str.simps [simp del]

text \<open>
  A message format is a template string or a callable taking the keyword arguments.
  \<^verbatim>\<open>if msg_fmt:\<close> is false for the empty string only.
\<close>

datatype msg_format =
    Template string
  | Formatter "kwargs_dict \<Rightarrow> py_exception + string"

fun truthy :: "msg_format \<Rightarrow> bool" where
  "truthy (Template s) = (s \<noteq> [])"
| "truthy (Formatter f) = True"

fun render :: "msg_format \<Rightarrow> kwargs_dict \<Rightarrow> py_exception + string" where
  "render (Formatter f) kw = f kw"
| "render (Template s) kw = format_str s kw"

text \<open>
  \<^verbatim>\<open>
  def echo_return_status(msg_fmt="", result_msg_fmt="{result}"):
      def decorator(func):
          @wraps(func)
          def wrap(*args, **kwargs):
              if msg_fmt:
                  if callable(msg_fmt):
                      msg = msg_fmt(**kwargs)
                  else:
                      msg = msg_fmt.format(**kwargs)
                  if msg:
                      click.echo(msg.strip())
              kwargs['result'] = func(*args, **kwargs)
              if result_msg_fmt:
                  if callable(result_msg_fmt):
                      result_msg = result_msg_fmt(**kwargs)
                  else:
                      result_msg = result_msg_fmt.format(**kwargs)
                  if result_msg:
                      click.echo(result_msg.strip())
          return wrap
      return decorator
  \<close>
  \<open>echo_return_status msg_fmt result_msg_fmt func\<close> is the function \<^verbatim>\<open>wrap\<close> that the
  decorator returns for \<^verbatim>\<open>func\<close>. The wrapped function may print too, so it takes and
  returns the output state. \<^verbatim>\<open>wrap\<close> has no \<^verbatim>\<open>return\<close> statement: reaching its end
  returns \<^verbatim>\<open>None\<close>.
\<close>

definition echo_return_status ::
  "msg_format \<Rightarrow> msg_format \<Rightarrow>
   ('args \<Rightarrow> kwargs_dict \<Rightarrow> io \<Rightarrow> (py_exception + py_value) \<times> io) \<Rightarrow>
   'args \<Rightarrow> kwargs_dict \<Rightarrow> io \<Rightarrow> (py_exception + py_value) \<times> io" where
  "echo_return_status msg_fmt result_msg_fmt func args kw w =
     (case (if truthy msg_fmt
            then (case render msg_fmt kw of
                    Inl ex \<Rightarrow> Inl ex
                  | Inr msg \<Rightarrow> Inr (if msg \<noteq> [] then echo (plain (strip msg)) w else w))
            else Inr w) of
        Inl ex \<Rightarrow> (Inl ex, w)
      | Inr w1 \<Rightarrow>
          (case func args kw w1 of
             (Inl ex, w2) \<Rightarrow> (Inl ex, w2)
           | (Inr res, w2) \<Rightarrow>
               (let kw' = AList.update ''result'' res kw in
                if truthy result_msg_fmt
                then (case render result_msg_fmt kw' of
                        Inl ex \<Rightarrow> (Inl ex, w2)
                      | Inr result_msg \<Rightarrow>
                          (Inr PyNone,
                           if result_msg \<noteq> [] then echo (plain (strip result_msg)) w2 else w2))
                else (Inr PyNone, w2))))"

section \<open>DeviceGroup.Command: the command descriptor\<close>

text \<open>
  A decorated method, as far as the module reads it: \<^verbatim>\<open>__name__\<close> and \<^verbatim>\<open>__doc__\<close>
  (\<^verbatim>\<open>None\<close> without a docstring).
\<close>

record pyfunc =
  fn_name :: string
  fn_doc :: "string option"

text \<open>
  \<^verbatim>\<open>str.lower()\<close> on code points below 256: the letters A to Z and the Latin-1 capitals
  move up by 32.
\<close>

definition lower_char :: "char \<Rightarrow> char" where
  "lower_char c =
     (let n = (of_char c :: nat) in
      if (65 \<le> n \<and> n \<le> 90) \<or> (192 \<le> n \<and> n \<le> 222 \<and> n \<noteq> 215)
      then char_of (n + 32) else c)"

definition lower :: "string \<Rightarrow> string" where
  "lower s = map lower_char s"

text \<open>
  \<^verbatim>\<open>
  class Command:
      def __init__(self, name, decorators, **kwargs):
          self.name = name
          self.decorators = list(decorators)
          self.decorators.reverse()
          self.kwargs = kwargs

      def __call__(self, func):
          self.func = func
          func._device_group_command = self
          self.kwargs.setdefault('help', self.func.__doc__)
          return func

      @property
      def command_name(self):
          return self.name or self.func.__name__.lower()

      def wrap(self, func):
          for decorator in self.decorators:
              func = decorator(func)
          return click.command(self.command_name, **self.kwargs)(func)
  \<close>
  The type \<open>'f\<close> is the type of the callables that the decorators transform. The
  attribute \<^verbatim>\<open>func\<close> does not exist before \<^verbatim>\<open>__call__\<close>: it is \<open>None\<close> then, and reading
  it is an \<^verbatim>\<open>AttributeError\<close>.
\<close>

record 'f command =
  name :: "string option"
  decorators :: "('f \<Rightarrow> 'f) list"
  kwargs :: kwargs_dict
  func :: "pyfunc option"

definition Command_init ::
  "string option \<Rightarrow> ('f \<Rightarrow> 'f) list \<Rightarrow> kwargs_dict \<Rightarrow> 'f command" where
  "Command_init nm decs kw = \<lparr>name = nm, decorators = rev decs, kwargs = kw, func = None\<rparr>"

text \<open>\<^verbatim>\<open>dict.setdefault\<close>: a key that is present keeps its value, whatever it is.\<close>

definition setdefault :: "'k \<Rightarrow> 'v \<Rightarrow> ('k \<times> 'v) list \<Rightarrow> ('k \<times> 'v) list" where
  "setdefault k v al = (case map_of al k of Some _ \<Rightarrow> al | None \<Rightarrow> AList.update k v al)"

definition doc_value :: "string option \<Rightarrow> py_value" where
  "doc_value d = (case d of None \<Rightarrow> PyNone | Some s \<Rightarrow> PyStr s)"

text \<open>
  \<^verbatim>\<open>__call__\<close> changes the descriptor and hangs it on the function; the result here is the
  descriptor after the call.
\<close>

definition Command_call :: "'f command \<Rightarrow> pyfunc \<Rightarrow> 'f command" where
  "Command_call self fn =
     self\<lparr>func := Some fn, kwargs := setdefault ''help'' (doc_value (fn_doc fn)) (kwargs self)\<rparr>"

definition command_name :: "'f command \<Rightarrow> py_exception + string" where
  "command_name self =
     (if name self \<noteq> None \<and> name self \<noteq> Some []
      then Inr (the (name self))
      else (case func self of
              None \<Rightarrow> Inl (Raise AttributeError ''func'')
            | Some fn \<Rightarrow> Inr (lower (fn_name fn))))"

text \<open>
  \<^verbatim>\<open>click.command(name, **attrs)(f)\<close> builds click's command object; what it is given is
  kept.
\<close>

record 'f click_command =
  cmd_name :: string
  cmd_attrs :: kwargs_dict
  cmd_callback :: 'f

definition wrap :: "'f command \<Rightarrow> 'f \<Rightarrow> py_exception + 'f click_command" where
  "wrap self fn =
     (let fn' = fold (\<lambda>decorator g. decorator g) (decorators self) fn in
      case command_name self of
        Inl ex \<Rightarrow> Inl ex
      | Inr n \<Rightarrow> Inr \<lparr>cmd_name = n, cmd_attrs = kwargs self, cmd_callback = fn'\<rparr>)"

text \<open>
  \<^verbatim>\<open>
  def device_command(*decorators, name=None, **kwargs):
      return DeviceGroup.Command(name, decorators, **kwargs)
  \<close>
\<close>

definition device_command ::
  "('f \<Rightarrow> 'f) list \<Rightarrow> string option \<Rightarrow> kwargs_dict \<Rightarrow> 'f command" where
  "device_command decs nm kw = Command_init nm decs kw"

section \<open>DeviceGroupMeta: the class-construction hook\<close>

text \<open>
  A value of a class namespace, as far as the module looks at it: \<^verbatim>\<open>None\<close>; an object
  that is callable or not and has a \<^verbatim>\<open>_device_group_command\<close> attribute or not; the
  command table that the hook stores; the default \<^verbatim>\<open>get_device_group\<close> class method that
  the hook installs. A dictionary and a \<^verbatim>\<open>classmethod\<close> object are not callable.
\<close>

datatype 'f pyobj =
    NoneObj
  | Obj bool "'f command option"
  | CommandTable "(string \<times> 'f command) list"
  | DefaultGetDeviceGroup

fun callable :: "'f pyobj \<Rightarrow> bool" where
  "callable (Obj c _) = c"
| "callable _ = False"

fun getattr_device_group_command :: "'f pyobj \<Rightarrow> 'f command option" where
  "getattr_device_group_command (Obj _ d) = d"
| "getattr_device_group_command _ = None"

text \<open>
  A class is its name and its namespace, a dictionary in the order of the class body.
  Base classes are handed to \<^verbatim>\<open>type.__new__\<close> untouched and are not part of the
  embedding: an attribute is looked up in the class's own namespace.
\<close>

record 'f device_class =
  cls_name :: string
  cls_namespace :: "(string \<times> 'f pyobj) list"

text \<open>
  \<^verbatim>\<open>
  def __new__(mcs, name, bases, namespace) -> type:
      commands = {}
      for key, val in namespace.items():
          if not callable(val):
              continue
          device_group_command = getattr(val, '_device_group_command', None)
          if device_group_command is None:
              continue
          commands[device_group_command.command_name] = device_group_command

      namespace['_device_group_commands'] = commands
      if 'get_device_group' not in namespace:
          def get_device_group(dcls):
              return DeviceGroup(dcls)
          namespace['get_device_group'] = classmethod(get_device_group)

      cls = super().__new__(mcs, name, bases, namespace)
      mcs.device_classes.add(cls)
      return cls
  \<close>
  \<open>collect_commands\<close> is the \<^verbatim>\<open>for\<close> loop, with the table built so far.
  \<^verbatim>\<open>mcs.device_classes\<close> is a set of class objects; every class made is a new object, so
  the set is the list of the classes made so far.
\<close>

fun collect_commands ::
  "(string \<times> 'f pyobj) list \<Rightarrow> (string \<times> 'f command) list \<Rightarrow>
   py_exception + (string \<times> 'f command) list" where
  "collect_commands [] commands = Inr commands"
| "collect_commands ((key, val) # rest) commands =
     (if \<not> callable val then collect_commands rest commands
      else (case getattr_device_group_command val of
              None \<Rightarrow> collect_commands rest commands
            | Some device_group_command \<Rightarrow>
                (case command_name device_group_command of
                   Inl ex \<Rightarrow> Inl ex
                 | Inr n \<Rightarrow>
                     collect_commands rest (AList.update n device_group_command commands))))"

definition DeviceGroupMeta_new ::
  "'f device_class list \<Rightarrow> string \<Rightarrow> (string \<times> 'f pyobj) list \<Rightarrow>
   py_exception + 'f device_class \<times> 'f device_class list" where
  "DeviceGroupMeta_new device_classes nm namespace =
     (case collect_commands namespace [] of
        Inl ex \<Rightarrow> Inl ex
      | Inr commands \<Rightarrow>
          (let ns1 = AList.update ''_device_group_commands'' (CommandTable commands) namespace;
               ns2 = (if map_of ns1 ''get_device_group'' = None
                      then AList.update ''get_device_group'' DefaultGetDeviceGroup ns1
                      else ns1);
               cls = \<lparr>cls_name = nm, cls_namespace = ns2\<rparr>
           in Inr (cls, device_classes @ [cls])))"

section \<open>DeviceGroup\<close>

text \<open>
  \<^verbatim>\<open>click.Option(param_decls, required=..., callback=...)\<close>, with the fields the module
  sets. A callback receives the context, the parameter and the raw value; the module's
  validators read the value only.
\<close>

record click_option =
  param_decls :: "string list"
  required :: bool
  callback :: "unit \<Rightarrow> unit \<Rightarrow> string \<Rightarrow> py_exception + string"

text \<open>
  \<^verbatim>\<open>
  DEFAULT_PARAMS = [
      click.Option(['--ip'], required=True, callback=validate_ip),
      click.Option(['--token'], required=True, callback=validate_token),
  ]
  \<close>
\<close>

definition DEFAULT_PARAMS :: "(string \<Rightarrow> py_exception + 'addr) \<Rightarrow> click_option list" where
  "DEFAULT_PARAMS ip_parser =
     [\<lparr>param_decls = [''--ip''], required = True, callback = validate_ip ip_parser\<rparr>,
      \<lparr>param_decls = [''--token''], required = True, callback = validate_token\<rparr>]"

text \<open>
  The keyword attributes \<^verbatim>\<open>**attrs\<close> that go on to \<^verbatim>\<open>click.MultiCommand.__init__\<close>: a
  parameter list under \<^verbatim>\<open>'params'\<close>, a callback, or any other value.
  \<open>PassContextGroupCallback\<close> is \<^verbatim>\<open>click.pass_context(self.group_callback)\<close>.
\<close>

datatype 'cb group_attr =
    Params "click_option list"
  | PassContextGroupCallback
  | CallerCallback 'cb
  | AttrValue py_value

text \<open>
  The result callback: none, a caller's object that is not callable, a caller's callable,
  or a caller's callable wrapped by \<^verbatim>\<open>self.device_pass\<close>.
\<close>

datatype 'cb result_callback =
    NoResultCallback
  | NotCallable py_value
  | ResultCallback 'cb
  | DevicePass 'cb

fun callable_result_callback :: "'cb result_callback \<Rightarrow> bool" where
  "callable_result_callback (ResultCallback _) = True"
| "callable_result_callback (DevicePass _) = True"
| "callable_result_callback _ = False"

fun device_pass :: "'cb result_callback \<Rightarrow> 'cb result_callback" where
  "device_pass (ResultCallback cb) = DevicePass cb"
| "device_pass other = other"

text \<open>The arguments that \<^verbatim>\<open>__init__\<close> passes on to click as they come.\<close>

record multi_command_args =
  invoke_without_command :: bool
  no_args_is_help :: "bool option"
  subcommand_metavar :: "string option"
  chain :: bool

definition default_multi_command_args :: multi_command_args where
  "default_multi_command_args =
     \<lparr>invoke_without_command = False, no_args_is_help = None,
      subcommand_metavar = None, chain = False\<rparr>"

record ('f, 'cb) device_group =
  commands :: "'f pyobj"
  device_class :: "'f device_class"
  group_name :: string
  group_args :: multi_command_args
  group_result_callback :: "'cb result_callback"
  group_attrs :: "(string \<times> 'cb group_attr) list"

text \<open>
  \<^verbatim>\<open>getattr(device_class, '_device_group_commands', None)\<close>: the attribute, or \<^verbatim>\<open>None\<close>
  when the class has none.
\<close>

definition getattr_device_group_commands :: "'f device_class \<Rightarrow> 'f pyobj" where
  "getattr_device_group_commands dcls =
     (case map_of (cls_namespace dcls) ''_device_group_commands'' of
        None \<Rightarrow> NoneObj
      | Some v \<Rightarrow> v)"

text \<open>
  \<^verbatim>\<open>
  def __init__(self, device_class, name=None, invoke_without_command=False,
               no_args_is_help=None, subcommand_metavar=None, chain=False,
               result_callback=None, result_callback_pass_device=True,
               **attrs):
      self.commands = getattr(device_class, '_device_group_commands', None)
      if self.commands is None:
          raise RuntimeError(
              "Class {} doesn't use DeviceGroupMeta meta class."
              " It can't be used with DeviceGroup."
          )
      self.device_class = device_class
      self.device_pass = click.make_pass_decorator(device_class)
      attrs.setdefault('params', self.DEFAULT_PARAMS)
      attrs.setdefault('callback', click.pass_context(self.group_callback))
      if result_callback_pass_device and callable(result_callback):
          result_callback = self.device_pass(result_callback)
      super().__init__(name or device_class.__name__.lower(),
                       invoke_without_command, no_args_is_help,
                       subcommand_metavar, chain, result_callback, **attrs)
  \<close>
  The message of the \<^verbatim>\<open>RuntimeError\<close> is the literal as written: \<^verbatim>\<open>format\<close> is never
  called on it.
\<close>

definition DeviceGroup_init ::
  "(string \<Rightarrow> py_exception + 'addr) \<Rightarrow> 'f device_class \<Rightarrow> string option \<Rightarrow>
   multi_command_args \<Rightarrow> 'cb result_callback \<Rightarrow> bool \<Rightarrow> (string \<times> 'cb group_attr) list \<Rightarrow>
   py_exception + ('f, 'cb) device_group" where
  "DeviceGroup_init ip_parser dcls nm args result_cb result_callback_pass_device attrs =
     (let cmds = getattr_device_group_commands dcls in
      if cmds = NoneObj
      then Inl (Raise RuntimeError
        (''Class {} doesn'' @ [CHR 0x27] @
         ''t use DeviceGroupMeta meta class. It can'' @ [CHR 0x27] @
         ''t be used with DeviceGroup.''))
      else
        (let attrs1 = setdefault ''params'' (Params (DEFAULT_PARAMS ip_parser)) attrs;
             attrs2 = setdefault ''callback'' PassContextGroupCallback attrs1;
             result_cb' = (if result_callback_pass_device \<and> callable_result_callback result_cb
                           then device_pass result_cb else result_cb)
         in Inr \<lparr>commands = cmds, device_class = dcls,
                 group_name = (if nm \<noteq> None \<and> nm \<noteq> Some [] then the nm
                               else lower (cls_name dcls)),
                 group_args = args, group_result_callback = result_cb',
                 group_attrs = attrs2\<rparr>))"

text \<open>
  The default factory that the hook installs:
  \<^verbatim>\<open>
  def get_device_group(dcls):
      return DeviceGroup(dcls)
  \<close>
\<close>

definition get_device_group ::
  "(string \<Rightarrow> py_exception + 'addr) \<Rightarrow> 'f device_class \<Rightarrow>
   py_exception + ('f, 'cb) device_group" where
  "get_device_group ip_parser dcls =
     DeviceGroup_init ip_parser dcls None default_multi_command_args NoResultCallback True []"

text \<open>
  \<^verbatim>\<open>
  def list_commands(self, ctx):
      return sorted(self.commands.keys())
  \<close>
  Python compares strings code point by code point, a proper prefix before its
  extensions: the lexicographic order of \<^typ>\<open>string\<close>. An object that is not a dictionary
  has no \<^verbatim>\<open>keys\<close>.
\<close>

definition list_commands :: "('f, 'cb) device_group \<Rightarrow> 'ctx \<Rightarrow> py_exception + string list" where
  "list_commands self ctx =
     (case commands self of
        CommandTable table \<Rightarrow> Inr (sort (map fst table))
      | _ \<Rightarrow> Inl (Raise AttributeError ''keys''))"

text \<open>The parameters that click is given: the \<^verbatim>\<open>'params'\<close> attribute of the group.\<close>

definition group_params :: "('f, 'cb) device_group \<Rightarrow> click_option list option" where
  "group_params self =
     (case map_of (group_attrs self) ''params'' of
        Some (Params ps) \<Rightarrow> Some ps
      | _ \<Rightarrow> None)"

section \<open>Properties of the validators\<close>

lemma nat_less_10_cases: "(k::nat) < 10 \<Longrightarrow> k \<in> {0, 1, 2, 3, 4, 5, 6, 7, 8, 9}"
  by auto

lemma digit_val_digit_char: "d < 10 \<Longrightarrow> digit_val (digit_char d) = d"
  by (drule nat_less_10_cases) (auto simp add: digit_val_def digit_char_def)

lemma digit_char_is_digit: "d < 10 \<Longrightarrow> digit_char d \<in> set ''0123456789''"
  by (drule nat_less_10_cases) (auto simp add: digit_char_def)

lemma nat_of_digits_snoc: "nat_of_digits (s @ [c]) = 10 * nat_of_digits s + digit_val c"
  by (simp add: nat_of_digits_def)

lemma nat_of_digits_str_nat: "nat_of_digits (str_nat n) = n"
proof (induction n rule: str_nat.induct)
  case (1 n)
  show ?case
  proof (cases "n < 10")
    case True
    then show ?thesis
      by (subst str_nat.simps) (simp add: nat_of_digits_def digit_val_digit_char)
  next
    case False
    with "1.IH" have "nat_of_digits (str_nat (n div 10)) = n div 10"
      by simp
    with False show ?thesis
      by (subst str_nat.simps) (simp add: nat_of_digits_snoc digit_val_digit_char)
  qed
qed

lemma str_nat_digits: "c \<in> set (str_nat n) \<Longrightarrow> c \<in> set ''0123456789''"
proof (induction n rule: str_nat.induct)
  case (1 n)
  show ?case
  proof (cases "n < 10")
    case True
    with "1.prems" have "c = digit_char n"
      by (subst (asm) str_nat.simps) simp
    with True digit_char_is_digit show ?thesis
      by blast
  next
    case False
    with "1.prems" have "c \<in> set (str_nat (n div 10)) \<or> c = digit_char (n mod 10)"
      by (subst (asm) str_nat.simps) auto
    then show ?thesis
    proof
      assume "c \<in> set (str_nat (n div 10))"
      with False "1.IH" show ?thesis
        by simp
    next
      assume "c = digit_char (n mod 10)"
      with digit_char_is_digit [of "n mod 10"] show ?thesis
        by simp
    qed
  qed
qed

text \<open>
  C4. \<^verbatim>\<open>validate_token\<close> returns its input unchanged exactly when the input has 32
  characters, whatever the characters are. For any other length it raises
  \<^verbatim>\<open>click.BadParameter\<close>, and the message ends in a decimal numeral that reads back
  as the length found.
\<close>

theorem validate_token_length_only:
  "(validate_token ctx param val = Inr val) = (length val = 32) \<and>
   (length val \<noteq> 32 \<longrightarrow>
      (\<exists>digits.
         validate_token ctx param val =
           Inl (Raise BadParameter (''Token length != 32 chars: '' @ digits)) \<and>
         nat_of_digits digits = length val \<and> set digits \<subseteq> set ''0123456789''))"
proof (intro conjI impI)
  show "(validate_token ctx param val = Inr val) = (length val = 32)"
    by (simp add: validate_token_def Let_def)
next
  assume other: "length val \<noteq> 32"
  have "set (str_nat (length val)) \<subseteq> set ''0123456789''"
    using str_nat_digits by blast
  moreover from other have "validate_token ctx param val =
      Inl (Raise BadParameter (''Token length != 32 chars: '' @ str_nat (length val)))"
    by (simp add: validate_token_def Let_def)
  ultimately show "\<exists>digits.
      validate_token ctx param val =
        Inl (Raise BadParameter (''Token length != 32 chars: '' @ digits)) \<and>
      nat_of_digits digits = length val \<and> set digits \<subseteq> set ''0123456789''"
    using nat_of_digits_str_nat by blast
qed

theorem validate_token_length_only_witness:
  "validate_token () () (replicate 32 CHR ''a'') = Inr (replicate 32 CHR ''a'') \<and>
   (\<exists>digits.
      validate_token () () (replicate 31 CHR ''a'') =
        Inl (Raise BadParameter (''Token length != 32 chars: '' @ digits)) \<and>
      nat_of_digits digits = 31)"
  using validate_token_length_only [of "()" "()" "replicate 32 CHR ''a''"]
    validate_token_length_only [of "()" "()" "replicate 31 CHR ''a''"]
  by auto

lemma validate_token_examples:
  "validate_token () () (replicate 31 CHR ''a'') =
     Inl (Raise BadParameter ''Token length != 32 chars: 31'') \<and>
   validate_token () () (replicate 33 CHR ''a'') =
     Inl (Raise BadParameter ''Token length != 32 chars: 33'') \<and>
   validate_token () () ''0123456789abcdefghijklmnopqrstu!'' =
     Inr ''0123456789abcdefghijklmnopqrstu!''"
  by (simp add: validate_token_def Let_def str_nat.simps digit_char_def)

text \<open>
  C5. \<^verbatim>\<open>validate_ip\<close> returns its input unchanged exactly when the address parser
  accepts it. When the parser raises a \<^verbatim>\<open>ValueError\<close>, the validator raises
  \<^verbatim>\<open>click.BadParameter\<close> with the parser's text after \<^verbatim>\<open>Invalid IP: \<close>. For the standard
  library's \<^verbatim>\<open>ip_address\<close> that means: the input is returned exactly when it is an IPv4
  or an IPv6 literal, and otherwise the message names the input by its \<^verbatim>\<open>repr\<close>.
\<close>

theorem validate_ip_literal_only:
  "(validate_ip parser ctx param val = Inr val) = (\<exists>a. parser val = Inr a) \<and>
   (\<forall>m. parser val = Inl (Raise ValueError m) \<longrightarrow>
      validate_ip parser ctx param val = Inl (Raise BadParameter (''Invalid IP: '' @ m))) \<and>
   (validate_ip (ip_address IPv4Address IPv6Address repr) ctx param val = Inr val) =
     (IPv4Address val \<noteq> None \<or> IPv6Address val \<noteq> None) \<and>
   (IPv4Address val = None \<and> IPv6Address val = None \<longrightarrow>
      validate_ip (ip_address IPv4Address IPv6Address repr) ctx param val =
        Inl (Raise BadParameter
          (''Invalid IP: '' @ repr val @ '' does not appear to be an IPv4 or IPv6 address'')))"
proof (intro conjI allI impI)
  show "(validate_ip parser ctx param val = Inr val) = (\<exists>a. parser val = Inr a)"
    by (cases "parser val") (simp_all add: validate_ip_def)
next
  fix m
  assume "parser val = Inl (Raise ValueError m)"
  then show "validate_ip parser ctx param val = Inl (Raise BadParameter (''Invalid IP: '' @ m))"
    by (simp add: validate_ip_def)
next
  show "(validate_ip (ip_address IPv4Address IPv6Address repr) ctx param val = Inr val) =
      (IPv4Address val \<noteq> None \<or> IPv6Address val \<noteq> None)"
    by (cases "IPv4Address val"; cases "IPv6Address val")
      (simp_all add: validate_ip_def ip_address_def)
next
  assume "IPv4Address val = None \<and> IPv6Address val = None"
  then show "validate_ip (ip_address IPv4Address IPv6Address repr) ctx param val =
      Inl (Raise BadParameter
        (''Invalid IP: '' @ repr val @ '' does not appear to be an IPv4 or IPv6 address''))"
    by (simp add: validate_ip_def ip_address_def)
qed

theorem validate_ip_literal_only_witness:
  "validate_ip
     (ip_address (\<lambda>s. if s = ''192.168.1.2'' then Some (4::nat) else None)
        (\<lambda>s. if s = ''::1'' then Some 6 else None) (\<lambda>s. [CHR 0x27] @ s @ [CHR 0x27]))
     () () ''::1'' = Inr ''::1'' \<and>
   validate_ip
     (ip_address (\<lambda>s. if s = ''192.168.1.2'' then Some (4::nat) else None)
        (\<lambda>s. if s = ''::1'' then Some 6 else None) (\<lambda>s. [CHR 0x27] @ s @ [CHR 0x27]))
     () () ''not-an-ip'' =
     Inl (Raise BadParameter
       (''Invalid IP: '' @ [CHR 0x27] @ ''not-an-ip'' @ [CHR 0x27] @
        '' does not appear to be an IPv4 or IPv6 address''))"
  using validate_ip_literal_only
      [of "ip_address (\<lambda>s. if s = ''192.168.1.2'' then Some (4::nat) else None)
             (\<lambda>s. if s = ''::1'' then Some 6 else None) (\<lambda>s. [CHR 0x27] @ s @ [CHR 0x27])"
          "()" "()" "''::1''"
          "\<lambda>s. if s = ''192.168.1.2'' then Some (4::nat) else None"
          "\<lambda>s. if s = ''::1'' then Some 6 else None" "\<lambda>s. [CHR 0x27] @ s @ [CHR 0x27]"]
    validate_ip_literal_only
      [of "ip_address (\<lambda>s. if s = ''192.168.1.2'' then Some (4::nat) else None)
             (\<lambda>s. if s = ''::1'' then Some 6 else None) (\<lambda>s. [CHR 0x27] @ s @ [CHR 0x27])"
          "()" "()" "''not-an-ip''"
          "\<lambda>s. if s = ''192.168.1.2'' then Some (4::nat) else None"
          "\<lambda>s. if s = ''::1'' then Some 6 else None" "\<lambda>s. [CHR 0x27] @ s @ [CHR 0x27]"]
  by simp

text \<open>
  An exception of the parser that is no \<^verbatim>\<open>ValueError\<close> is not caught by the validator.
\<close>

lemma validate_ip_other_exception:
  "parser val = Inl ex \<Longrightarrow> exc_type ex \<noteq> ValueError \<Longrightarrow>
   validate_ip parser ctx param val = Inl ex"
  by (simp add: validate_ip_def)

section \<open>Properties of the exception handler\<close>

text \<open>
  C6. When the wrapped invocation raises \<^verbatim>\<open>miio.DeviceException\<close> or a subclass, the
  handler returns normally (with \<^verbatim>\<open>None\<close>), having added one debug log call with the
  trace requested and one echo of the styled error line, after whatever the invocation
  printed and logged itself. An exception of any other class leaves the handler as it
  was raised, with nothing added. A returned value is passed on.
\<close>

theorem exception_handler_catches_device_exceptions_only:
  "(main args w = (Inl ex, w') \<and> is_DeviceException ex \<longrightarrow>
      ExceptionHandlerGroup_call main args w =
        (Inr PyNone,
         w'\<lparr>echoed := echoed w' @ [style (''Error: '' @ exc_str ex) (Some ''red'') True],
            logged := logged w' @
              [\<lparr>log_level = ''DEBUG'', log_message = ''Exception: '' @ exc_str ex,
                log_exc_info = True\<rparr>]\<rparr>)) \<and>
   (main args w = (Inl ex, w') \<and> \<not> is_DeviceException ex \<longrightarrow>
      ExceptionHandlerGroup_call main args w = (Inl ex, w')) \<and>
   (main args w = (Inr v, w') \<longrightarrow> ExceptionHandlerGroup_call main args w = (Inr v, w'))"
  by (simp add: ExceptionHandlerGroup_call_def echo_def LOGGER_debug_def)

theorem exception_handler_catches_device_exceptions_only_witness:
  "ExceptionHandlerGroup_call (\<lambda>a w. (Inl (Raise DeviceException ''No response''), w)) ()
     \<lparr>echoed = [], logged = []\<rparr> =
     (Inr PyNone,
      \<lparr>echoed = [\<lparr>st_text = ''Error: No response'', st_fg = Some ''red'', st_bold = True\<rparr>],
       logged = [\<lparr>log_level = ''DEBUG'', log_message = ''Exception: No response'',
                  log_exc_info = True\<rparr>]\<rparr>) \<and>
   ExceptionHandlerGroup_call (\<lambda>a w. (Inl (Raise KeyError ''x''), w)) ()
     \<lparr>echoed = [], logged = []\<rparr> =
     (Inl (Raise KeyError ''x''), \<lparr>echoed = [], logged = []\<rparr>) \<and>
   ExceptionHandlerGroup_call (\<lambda>a w. (Inr (PyInt 0), w)) () \<lparr>echoed = [], logged = []\<rparr> =
     (Inr (PyInt 0), \<lparr>echoed = [], logged = []\<rparr>)"
  using exception_handler_catches_device_exceptions_only
      [of "\<lambda>a w. (Inl (Raise DeviceException ''No response''), w)" "()"
          "\<lparr>echoed = [], logged = []\<rparr>" "Raise DeviceException ''No response''"
          "\<lparr>echoed = [], logged = []\<rparr>"]
    exception_handler_catches_device_exceptions_only
      [of "\<lambda>a w. (Inl (Raise KeyError ''x''), w)" "()"
          "\<lparr>echoed = [], logged = []\<rparr>" "Raise KeyError ''x''" "\<lparr>echoed = [], logged = []\<rparr>"]
    exception_handler_catches_device_exceptions_only
      [of "\<lambda>a w. (Inr (PyInt 0), w)" "()"
          "\<lparr>echoed = [], logged = []\<rparr>" _ "\<lparr>echoed = [], logged = []\<rparr>" "PyInt 0"]
  by (simp add: style_def)

section \<open>Properties of the echo decorator\<close>

lemma format_doing_x: "format_str ''doing {x}'' [(''x'', PyInt 5)] = Inr ''doing 5''"
  by (simp add: format_str.simps format_field_def simple_field_def then_append_def str_int_def
      str_nat.simps digit_char_def)

lemma format_got_result:
  "format_str ''got {result}'' [(''x'', PyInt 5), (''result'', PyInt 10)] = Inr ''got 10''"
  by (simp add: format_str.simps format_field_def simple_field_def then_append_def str_int_def
      str_nat.simps digit_char_def)

lemma format_space: "format_str '' '' kw = Inr '' ''"
  by (simp add: format_str.simps then_append_def)

lemma strip_examples:
  "strip ''doing 5'' = ''doing 5''" "strip ''got 10'' = ''got 10''" "strip '' '' = []"
  by (simp_all add: strip_def is_space_def)

text \<open>
  A run of the wrapper in which nothing raises: the message before the call, the call,
  the message after it.
\<close>

lemma echo_return_status_returning:
  assumes "truthy msg_fmt \<Longrightarrow> render msg_fmt kw = Inr msg"
    and "wrapped args kw
           (if truthy msg_fmt \<and> msg \<noteq> [] then echo (plain (strip msg)) w else w) =
         (Inr res, w2)"
    and "truthy result_msg_fmt \<Longrightarrow>
         render result_msg_fmt (AList.update ''result'' res kw) = Inr result_msg"
  shows "echo_return_status msg_fmt result_msg_fmt wrapped args kw w =
     (Inr PyNone,
      if truthy result_msg_fmt \<and> result_msg \<noteq> []
      then echo (plain (strip result_msg)) w2 else w2)"
proof (cases "truthy msg_fmt")
  case True
  with assms(1) have "render msg_fmt kw = Inr msg"
    by simp
  with True assms(2,3) show ?thesis
    by (cases "truthy result_msg_fmt") (simp_all add: echo_return_status_def Let_def)
next
  case False
  with assms(2,3) show ?thesis
    by (cases "truthy result_msg_fmt") (simp_all add: echo_return_status_def Let_def)
qed

text \<open>
  C7, as the code has it. With the templates \<^verbatim>\<open>"doing {x}"\<close> and \<^verbatim>\<open>"got {result}"\<close>, the
  keyword \<^verbatim>\<open>x=5\<close> and a wrapped function returning 10, the wrapper echoes \<^verbatim>\<open>doing 5\<close>
  before it calls the function and \<^verbatim>\<open>got 10\<close> after what the function printed. In
  general a rendered message is echoed, trimmed, exactly when it is non-empty before
  trimming, and the message after the call is rendered from the keywords with the return
  value stored under \<^verbatim>\<open>result\<close>.
\<close>

theorem echo_return_status_messages:
  "(wrapped args [(''x'', PyInt 5)] (echo (plain ''doing 5'') w) = (Inr (PyInt 10), w2) \<longrightarrow>
      echo_return_status (Template ''doing {x}'') (Template ''got {result}'') wrapped args
        [(''x'', PyInt 5)] w = (Inr PyNone, echo (plain ''got 10'') w2)) \<and>
   ((truthy msg_fmt \<longrightarrow> render msg_fmt kw = Inr msg) \<and>
    wrapped args kw (if truthy msg_fmt \<and> msg \<noteq> [] then echo (plain (strip msg)) w else w) =
      (Inr res, w2) \<and>
    (truthy result_msg_fmt \<longrightarrow>
       render result_msg_fmt (AList.update ''result'' res kw) = Inr result_msg) \<longrightarrow>
      echo_return_status msg_fmt result_msg_fmt wrapped args kw w =
        (Inr PyNone,
         if truthy result_msg_fmt \<and> result_msg \<noteq> []
         then echo (plain (strip result_msg)) w2 else w2))"
proof (intro conjI impI)
  assume "wrapped args [(''x'', PyInt 5)] (echo (plain ''doing 5'') w) = (Inr (PyInt 10), w2)"
  then show "echo_return_status (Template ''doing {x}'') (Template ''got {result}'') wrapped args
        [(''x'', PyInt 5)] w = (Inr PyNone, echo (plain ''got 10'') w2)"
    using echo_return_status_returning [of "Template ''doing {x}''" "[(''x'', PyInt 5)]"
        "''doing 5''" wrapped args w "PyInt 10" w2 "Template ''got {result}''" "''got 10''"]
    by (simp add: format_doing_x format_got_result strip_examples)
next
  assume run: "(truthy msg_fmt \<longrightarrow> render msg_fmt kw = Inr msg) \<and>
    wrapped args kw (if truthy msg_fmt \<and> msg \<noteq> [] then echo (plain (strip msg)) w else w) =
      (Inr res, w2) \<and>
    (truthy result_msg_fmt \<longrightarrow>
       render result_msg_fmt (AList.update ''result'' res kw) = Inr result_msg)"
  show "echo_return_status msg_fmt result_msg_fmt wrapped args kw w =
        (Inr PyNone,
         if truthy result_msg_fmt \<and> result_msg \<noteq> []
         then echo (plain (strip result_msg)) w2 else w2)"
    by (rule echo_return_status_returning [of msg_fmt kw msg wrapped args w res w2])
      (simp_all add: run)
qed

theorem echo_return_status_messages_witness:
  "echo_return_status (Template ''doing {x}'') (Template ''got {result}'')
     (\<lambda>args kw w. (Inr (PyInt 10), echo (plain ''working'') w)) () [(''x'', PyInt 5)]
     \<lparr>echoed = [], logged = []\<rparr> =
     (Inr PyNone,
      \<lparr>echoed = [plain ''doing 5'', plain ''working'', plain ''got 10''], logged = []\<rparr>)"
  using echo_return_status_messages
      [of "\<lambda>args kw w. (Inr (PyInt 10), echo (plain ''working'') w)" "()"
          "\<lparr>echoed = [], logged = []\<rparr>"
          "\<lparr>echoed = [plain ''doing 5'', plain ''working''], logged = []\<rparr>"
          "Template ''doing {x}''" "[(''x'', PyInt 5)]" "''doing 5''" "PyInt 10"
          "Template ''got {result}''" "''got 10''"]
  by (simp add: echo_def)

text \<open>
  The claim's clause on trimming fails on the code: the test for emptiness comes before
  \<^verbatim>\<open>strip\<close>. A template of one space renders to a message that is empty after trimming,
  and is echoed, as an empty line.
\<close>

theorem echo_whitespace_message_counterexample:
  "echo_return_status (Template '' '') (Template ''got {result}'')
     (\<lambda>args kw w. (Inr (PyInt 10), w)) () [(''x'', PyInt 5)] \<lparr>echoed = [], logged = []\<rparr> =
     (Inr PyNone, \<lparr>echoed = [plain [], plain ''got 10''], logged = []\<rparr>) \<and>
   strip '' '' = []"
  by (simp add: echo_return_status_def Let_def format_space format_got_result strip_examples
      echo_def)


lemma echo_return_status_result:
  "fst (echo_return_status msg_fmt result_msg_fmt wrapped args kw w) = Inr v \<Longrightarrow> v = PyNone"
  by (auto simp add: echo_return_status_def Let_def split: if_splits sum.splits prod.splits)

text \<open>
  C10. Whenever the wrapper returns, it returns \<^verbatim>\<open>None\<close>, whatever the wrapped function
  returned; and it does return when the wrapped function returns and both messages
  render.
\<close>

theorem echo_wrapper_returns_None:
  "(\<not> isl (fst (echo_return_status msg_fmt result_msg_fmt wrapped args kw w)) \<longrightarrow>
      fst (echo_return_status msg_fmt result_msg_fmt wrapped args kw w) = Inr PyNone) \<and>
   ((truthy msg_fmt \<longrightarrow> render msg_fmt kw = Inr msg) \<and>
    wrapped args kw (if truthy msg_fmt \<and> msg \<noteq> [] then echo (plain (strip msg)) w else w) =
      (Inr res, w2) \<and>
    (truthy result_msg_fmt \<longrightarrow>
       render result_msg_fmt (AList.update ''result'' res kw) = Inr result_msg) \<longrightarrow>
      fst (echo_return_status msg_fmt result_msg_fmt wrapped args kw w) = Inr PyNone)"
proof (intro conjI impI)
  assume "\<not> isl (fst (echo_return_status msg_fmt result_msg_fmt wrapped args kw w))"
  then obtain v where v: "fst (echo_return_status msg_fmt result_msg_fmt wrapped args kw w) = Inr v"
    by (cases "fst (echo_return_status msg_fmt result_msg_fmt wrapped args kw w)") simp_all
  then have "v = PyNone"
    by (rule echo_return_status_result)
  with v show "fst (echo_return_status msg_fmt result_msg_fmt wrapped args kw w) = Inr PyNone"
    by simp
next
  assume run: "(truthy msg_fmt \<longrightarrow> render msg_fmt kw = Inr msg) \<and>
    wrapped args kw (if truthy msg_fmt \<and> msg \<noteq> [] then echo (plain (strip msg)) w else w) =
      (Inr res, w2) \<and>
    (truthy result_msg_fmt \<longrightarrow>
       render result_msg_fmt (AList.update ''result'' res kw) = Inr result_msg)"
  have "echo_return_status msg_fmt result_msg_fmt wrapped args kw w =
        (Inr PyNone,
         if truthy result_msg_fmt \<and> result_msg \<noteq> []
         then echo (plain (strip result_msg)) w2 else w2)"
    by (rule echo_return_status_returning [of msg_fmt kw msg wrapped args w res w2])
      (simp_all add: run)
  then show "fst (echo_return_status msg_fmt result_msg_fmt wrapped args kw w) = Inr PyNone"
    by simp
qed


theorem echo_wrapper_returns_None_witness:
  "fst ((\<lambda>args kw w. (Inr (PyInt 10), w)) () [(''x'', PyInt 5)] \<lparr>echoed = [], logged = []\<rparr>) =
     Inr (PyInt 10) \<and>
   fst (echo_return_status (Template []) (Template ''got {result}'')
     (\<lambda>args kw w. (Inr (PyInt 10), w)) () [(''x'', PyInt 5)] \<lparr>echoed = [], logged = []\<rparr>) =
     Inr PyNone"
proof -
  have run: "(truthy (Template []) \<longrightarrow> render (Template []) [(''x'', PyInt 5)] = Inr []) \<and>
    (\<lambda>args kw w. (Inr (PyInt 10), w)) () [(''x'', PyInt 5)]
      (if truthy (Template []) \<and> [] \<noteq> ([] :: string)
       then echo (plain (strip [])) \<lparr>echoed = [], logged = []\<rparr>
       else \<lparr>echoed = [], logged = []\<rparr>) =
      (Inr (PyInt 10), \<lparr>echoed = [], logged = []\<rparr>) \<and>
    (truthy (Template ''got {result}'') \<longrightarrow>
       render (Template ''got {result}'') (AList.update ''result'' (PyInt 10) [(''x'', PyInt 5)]) =
         Inr ''got 10'')"
    by (simp add: format_got_result)
  have "fst (echo_return_status (Template []) (Template ''got {result}'')
     (\<lambda>args kw w. (Inr (PyInt 10), w)) () [(''x'', PyInt 5)] \<lparr>echoed = [], logged = []\<rparr>) =
     Inr PyNone"
    by (rule echo_wrapper_returns_None
        [of "Template []" "Template ''got {result}''" "\<lambda>args kw w. (Inr (PyInt 10), w)" "()"
            "[(''x'', PyInt 5)]" "\<lparr>echoed = [], logged = []\<rparr>" "[]" "PyInt 10"
            "\<lparr>echoed = [], logged = []\<rparr>" "''got 10''",
          THEN conjunct2, THEN mp, OF run])
  then show ?thesis
    by simp
qed

section \<open>Properties of the command descriptor\<close>

lemma command_name_Command_call:
  "command_name (Command_call c fn) =
     Inr (if name c \<noteq> None \<and> name c \<noteq> Some [] then the (name c) else lower (fn_name fn))"
  by (simp add: command_name_def Command_call_def)

lemma map_of_setdefault:
  "map_of (setdefault k v al) k = (case map_of al k of Some u \<Rightarrow> Some u | None \<Rightarrow> Some v)"
  by (simp add: setdefault_def update_conv' split: option.splits)

text \<open>
  C2. A descriptor made by \<^verbatim>\<open>device_command\<close> and attached to a method materializes into
  a command whose callback is the declared decorators applied to the final callable from
  the last declared to the first, so that the first declared is outermost. The command
  is named by the descriptor's command name, and its \<^verbatim>\<open>help\<close> is the caller's when one was
  given and the method's documentation string otherwise.
\<close>

theorem wrap_decorator_order:
  "(\<exists>cmd. wrap (Command_call (device_command decs nm kw) fn) g = Inr cmd \<and>
      cmd_callback cmd = foldr (\<lambda>decorator h. decorator h) decs g \<and>
      (\<forall>d ds. decs = d # ds \<longrightarrow>
         cmd_callback cmd = d (foldr (\<lambda>decorator h. decorator h) ds g)) \<and>
      cmd_name cmd = (if nm \<noteq> None \<and> nm \<noteq> Some [] then the nm else lower (fn_name fn)) \<and>
      map_of (cmd_attrs cmd) ''help'' =
        (case map_of kw ''help'' of
           Some v \<Rightarrow> Some v
         | None \<Rightarrow> Some (doc_value (fn_doc fn))))"
proof -
  have nm: "command_name (Command_call (device_command decs nm kw) fn) =
      Inr (if nm \<noteq> None \<and> nm \<noteq> Some [] then the nm else lower (fn_name fn))"
    by (simp add: command_name_Command_call device_command_def Command_init_def)
  have decs: "decorators (Command_call (device_command decs nm kw) fn) = rev decs"
    by (simp add: Command_call_def device_command_def Command_init_def)
  have kw: "kwargs (Command_call (device_command decs nm kw) fn) =
      setdefault ''help'' (doc_value (fn_doc fn)) kw"
    by (simp add: Command_call_def device_command_def Command_init_def)
  have order: "fold (\<lambda>decorator h. decorator h) (rev decs) g =
      foldr (\<lambda>decorator h. decorator h) decs g"
    by (simp add: foldr_conv_fold)
  show ?thesis
    by (simp add: wrap_def nm decs kw order map_of_setdefault del: not_None_eq)
qed

lemma lower_Status: "lower ''Status'' = ''status''"
  by code_simp

theorem wrap_decorator_order_witness:
  "\<exists>cmd. wrap (Command_call
       (device_command [\<lambda>s. ''first('' @ s @ '')'', \<lambda>s. ''second('' @ s @ '')''] None [])
       \<lparr>fn_name = ''Status'', fn_doc = Some ''Show the status.''\<rparr>) ''call'' = Inr cmd \<and>
     cmd_callback cmd = ''first(second(call))'' \<and>
     cmd_name cmd = ''status'' \<and>
     map_of (cmd_attrs cmd) ''help'' = Some (PyStr ''Show the status.'')"
  using wrap_decorator_order
      [of "[\<lambda>s. ''first('' @ s @ '')'', \<lambda>s. ''second('' @ s @ '')'']" None "[]"
          "\<lparr>fn_name = ''Status'', fn_doc = Some ''Show the status.''\<rparr>" "''call''"]
  by (auto simp add: lower_Status doc_value_def)

section \<open>Properties of the class-construction hook\<close>

text \<open>
  One round of the loop, by the kind of the namespace value: only a callable object with
  a descriptor changes the table.
\<close>

lemma collect_commands_cases:
  obtains (skip) "collect_commands ((k, v) # rest) acc = collect_commands rest acc"
      "\<forall>d. v \<noteq> Obj True (Some d)"
  | (register) d n where "v = Obj True (Some d)" "command_name d = Inr n"
      "collect_commands ((k, v) # rest) acc = collect_commands rest (AList.update n d acc)"
  | (raise) d ex where "v = Obj True (Some d)" "command_name d = Inl ex"
      "collect_commands ((k, v) # rest) acc = Inl ex"
proof (cases "\<exists>d. v = Obj True (Some d)")
  case False
  then have "collect_commands ((k, v) # rest) acc = collect_commands rest acc"
    by (cases v) (auto split: option.splits)
  with False show ?thesis
    using skip by blast
next
  case True
  then obtain d where d: "v = Obj True (Some d)"
    by blast
  show ?thesis
  proof (cases "command_name d")
    case (Inl ex)
    with d show ?thesis
      using raise by simp
  next
    case (Inr n)
    with d show ?thesis
      using register by simp
  qed
qed

lemma collect_commands_keys:
  "collect_commands ns acc = Inr t \<Longrightarrow>
   fst ` set t =
     fst ` set acc \<union> {m. \<exists>k d. (k, Obj True (Some d)) \<in> set ns \<and> command_name d = Inr m}"
proof (induction ns arbitrary: acc)
  case Nil
  then show ?case by simp
next
  case (Cons kv ns)
  obtain k v where kv: "kv = (k, v)"
    by (cases kv)
  show ?case
  proof (cases rule: collect_commands_cases [of k v ns acc])
    case skip
    with Cons.prems kv have "collect_commands ns acc = Inr t"
      by simp
    from Cons.IH [OF this] skip(2) kv show ?thesis
      by auto
  next
    case (register d n)
    with Cons.prems kv have "collect_commands ns (AList.update n d acc) = Inr t"
      by simp
    from Cons.IH [OF this] register(1,2) kv show ?thesis
      by (auto simp add: dom_update)
  next
    case (raise d ex)
    with Cons.prems kv show ?thesis
      by simp
  qed
qed

lemma collect_commands_distinct:
  "collect_commands ns acc = Inr t \<Longrightarrow> distinct (map fst acc) \<Longrightarrow> distinct (map fst t)"
proof (induction ns arbitrary: acc)
  case Nil
  then show ?case by simp
next
  case (Cons kv ns)
  obtain k v where kv: "kv = (k, v)"
    by (cases kv)
  show ?case
  proof (cases rule: collect_commands_cases [of k v ns acc])
    case skip
    with Cons kv show ?thesis
      by simp
  next
    case (register d n)
    with Cons.prems kv have "collect_commands ns (AList.update n d acc) = Inr t"
      by simp
    moreover from Cons.prems have "distinct (map fst (AList.update n d acc))"
      by (simp add: distinct_update)
    ultimately show ?thesis
      by (rule Cons.IH)
  next
    case (raise d ex)
    with Cons.prems kv show ?thesis
      by simp
  qed
qed





text \<open>The class that the hook returns, and the table it carries.\<close>

lemma DeviceGroupMeta_new_table:
  "collect_commands namespace [] = Inr t \<Longrightarrow>
   \<exists>cls. DeviceGroupMeta_new classes nm namespace = Inr (cls, classes @ [cls]) \<and>
     cls_name cls = nm \<and> getattr_device_group_commands cls = CommandTable t"
  by (simp add: DeviceGroupMeta_new_def Let_def getattr_device_group_commands_def update_conv')

lemma DeviceGroupMeta_new_returns:
  "DeviceGroupMeta_new classes nm namespace = Inr (cls, classes') \<Longrightarrow>
   \<exists>t. collect_commands namespace [] = Inr t \<and> classes' = classes @ [cls] \<and>
     getattr_device_group_commands cls = CommandTable t"
proof (cases "collect_commands namespace []")
  case (Inl ex)
  assume "DeviceGroupMeta_new classes nm namespace = Inr (cls, classes')"
  with Inl show ?thesis
    by (simp add: DeviceGroupMeta_new_def)
next
  case (Inr t)
  assume made: "DeviceGroupMeta_new classes nm namespace = Inr (cls, classes')"
  from DeviceGroupMeta_new_table [OF Inr, of classes nm] made Inr show ?thesis
    by auto
qed


lemma lower_status: "lower ''status'' = ''status''"
  by code_simp

lemma lower_on_off: "lower ''on'' = ''on''" "lower ''off'' = ''off''"
  by code_simp+


section \<open>Properties of the command group\<close>

lemma map_of_setdefault_other:
  "k' \<noteq> k \<Longrightarrow> map_of (setdefault k v al) k' = map_of al k'"
  by (simp add: setdefault_def update_conv' split: option.splits)

text \<open>A class that carries a command table makes a group; the group keeps the table.\<close>

lemma DeviceGroup_init_registered:
  "getattr_device_group_commands cls \<noteq> NoneObj \<Longrightarrow>
   \<exists>grp. DeviceGroup_init parser cls gname args rcb pass attrs = Inr grp \<and>
     commands grp = getattr_device_group_commands cls \<and>
     device_class grp = cls \<and>
     group_attrs grp =
       setdefault ''callback'' PassContextGroupCallback
         (setdefault ''params'' (Params (DEFAULT_PARAMS parser)) attrs)"
  by (simp add: DeviceGroup_init_def Let_def)

lemma sorted_command_names: "sorted [''off'', ''on'', ''status'']"
  by simp

lemma sorted_command_names_unique:
  "sorted names \<Longrightarrow> distinct names \<Longrightarrow> set names = {''status'', ''on'', ''off''} \<Longrightarrow>
   names = [''off'', ''on'', ''status'']"
proof -
  assume "sorted names" and "distinct names" and "set names = {''status'', ''on'', ''off''}"
  moreover have "sorted [''off'', ''on'', ''status'']" and "distinct [''off'', ''on'', ''status'']"
    by simp_all
  moreover have "set [''off'', ''on'', ''status''] = {''status'', ''on'', ''off''}"
    by auto
  ultimately show ?thesis
    using sorted_distinct_set_unique [of names "[''off'', ''on'', ''status'']"] by simp
qed

text \<open>
  C3. For a class made by the hook, the group lists the registered command names in
  ascending lexicographic order, each once: the listing is the sorted list of the set of
  names, whatever the order of the class body. When the names are \<^verbatim>\<open>status\<close>, \<^verbatim>\<open>on\<close> and
  \<^verbatim>\<open>off\<close>, the listing is \<^verbatim>\<open>off\<close>, \<^verbatim>\<open>on\<close>, \<^verbatim>\<open>status\<close>.
\<close>

theorem list_commands_sorted:
  assumes made: "DeviceGroupMeta_new classes nm namespace = Inr (cls, classes')"
  shows "\<exists>grp names.
      DeviceGroup_init parser cls gname args rcb pass attrs = Inr grp \<and>
      list_commands grp ctx = Inr names \<and>
      sorted names \<and> distinct names \<and>
      set names =
        {m. \<exists>k d. (k, Obj True (Some d)) \<in> set namespace \<and> command_name d = Inr m} \<and>
      names = sorted_list_of_set
        {m. \<exists>k d. (k, Obj True (Some d)) \<in> set namespace \<and> command_name d = Inr m} \<and>
      (set names = {''status'', ''on'', ''off''} \<longrightarrow> names = [''off'', ''on'', ''status''])"
proof -
  from DeviceGroupMeta_new_returns [OF made]
  obtain table where table: "collect_commands namespace [] = Inr table"
    and carried: "getattr_device_group_commands cls = CommandTable table"
    by blast
  from carried have "getattr_device_group_commands cls \<noteq> NoneObj"
    by simp
  from DeviceGroup_init_registered [OF this, of parser gname args rcb pass attrs] carried
  obtain grp where grp: "DeviceGroup_init parser cls gname args rcb pass attrs = Inr grp"
    and cmds: "commands grp = CommandTable table"
    by auto
  let ?names = "sort (map fst table)"
  from cmds have listing: "list_commands grp ctx = Inr ?names"
    by (simp add: list_commands_def)
  from collect_commands_distinct [OF table] have dist: "distinct ?names"
    by simp
  from collect_commands_keys [OF table]
  have keys: "set ?names =
      {m. \<exists>k d. (k, Obj True (Some d)) \<in> set namespace \<and> command_name d = Inr m}"
    by simp
  have srt: "sorted ?names"
    by simp
  from collect_commands_distinct [OF table] have "distinct (map fst table)"
    by simp
  then have "sorted_list_of_set (set (map fst table)) = ?names"
    by (subst sorted_list_of_set_sort_remdups) (simp add: distinct_remdups_id)
  then have "sorted_list_of_set (set ?names) = ?names"
    by simp
  with keys have canonical: "?names = sorted_list_of_set
      {m. \<exists>k d. (k, Obj True (Some d)) \<in> set namespace \<and> command_name d = Inr m}"
    by simp
  from srt dist
  have example: "set ?names = {''status'', ''on'', ''off''} \<longrightarrow> ?names = [''off'', ''on'', ''status'']"
    using sorted_command_names_unique by blast
  from grp listing srt dist keys canonical example show ?thesis
    by blast
qed

theorem list_commands_sorted_witness:
  "\<exists>cls grp.
     DeviceGroupMeta_new [] ''Plug''
       [(''status'', Obj True (Some (Command_call (device_command [] None [])
           \<lparr>fn_name = ''status'', fn_doc = None\<rparr>))),
        (''on'', Obj True (Some (Command_call (device_command [] None [])
           \<lparr>fn_name = ''on'', fn_doc = None\<rparr>))),
        (''off'', Obj True (Some (Command_call (device_command [] None [])
           \<lparr>fn_name = ''off'', fn_doc = None\<rparr>)))] =
       Inr (cls, [cls :: nat device_class]) \<and>
     DeviceGroup_init (\<lambda>s. Inr ()) cls None default_multi_command_args
       (NoResultCallback :: unit result_callback) True [] = Inr grp \<and>
     list_commands grp () = Inr [''off'', ''on'', ''status'']"
proof -
  let ?status = "Command_call (device_command [] None [])
      \<lparr>fn_name = ''status'', fn_doc = None\<rparr> :: nat command"
  let ?on = "Command_call (device_command [] None [])
      \<lparr>fn_name = ''on'', fn_doc = None\<rparr> :: nat command"
  let ?off = "Command_call (device_command [] None [])
      \<lparr>fn_name = ''off'', fn_doc = None\<rparr> :: nat command"
  let ?body = "[(''status'', Obj True (Some ?status)), (''on'', Obj True (Some ?on)),
      (''off'', Obj True (Some ?off))]"
  have names: "command_name ?status = Inr ''status''" "command_name ?on = Inr ''on''"
    "command_name ?off = Inr ''off''"
    by (simp_all add: command_name_Command_call device_command_def Command_init_def
        lower_status lower_on_off)
  then have "collect_commands ?body [] =
      Inr [(''status'', ?status), (''on'', ?on), (''off'', ?off)]"
    by simp
  from DeviceGroupMeta_new_table [OF this, of "[]" "''Plug''"]
  obtain cls where made: "DeviceGroupMeta_new [] ''Plug'' ?body = Inr (cls, [] @ [cls])"
    by blast
  from list_commands_sorted [OF made, of "\<lambda>s. Inr ()" None default_multi_command_args
      "NoResultCallback :: unit result_callback" True "[]" "()"]
  obtain grp listed where grp: "DeviceGroup_init (\<lambda>s. Inr ()) cls None default_multi_command_args
      (NoResultCallback :: unit result_callback) True [] = Inr grp"
    and listing: "list_commands grp () = Inr listed"
    and keys: "set listed =
      {m. \<exists>k d. (k, Obj True (Some d)) \<in> set ?body \<and> command_name d = Inr m}"
    and example: "set listed = {''status'', ''on'', ''off''} \<longrightarrow> listed = [''off'', ''on'', ''status'']"
    by blast
  from keys names have "set listed = {''status'', ''on'', ''off''}"
    by auto
  with example have "listed = [''off'', ''on'', ''status'']"
    by simp
  with made grp listing show ?thesis
    by auto
qed

text \<open>
  C8, as the code has it. A group made from a class that carries a command table, with no
  \<^verbatim>\<open>params\<close> attribute from the caller, has the two default parameters: a required
  option \<^verbatim>\<open>--ip\<close> with \<^verbatim>\<open>validate_ip\<close> as its callback and a required option \<^verbatim>\<open>--token\<close>
  with \<^verbatim>\<open>validate_token\<close> as its callback. Parameters that the caller supplies under
  \<^verbatim>\<open>params\<close> are the group's parameters as they are: the defaults are not added.
\<close>

theorem group_default_params:
  assumes "getattr_device_group_commands cls \<noteq> NoneObj"
  shows "\<exists>grp. DeviceGroup_init parser cls gname args rcb pass attrs = Inr grp \<and>
      (map_of attrs ''params'' = None \<longrightarrow>
         group_params grp =
           Some [\<lparr>param_decls = [''--ip''], required = True, callback = validate_ip parser\<rparr>,
                 \<lparr>param_decls = [''--token''], required = True, callback = validate_token\<rparr>]) \<and>
      (\<forall>ps. map_of attrs ''params'' = Some (Params ps) \<longrightarrow> group_params grp = Some ps)"
proof -
  from DeviceGroup_init_registered [OF assms, of parser gname args rcb pass attrs]
  obtain grp where grp: "DeviceGroup_init parser cls gname args rcb pass attrs = Inr grp"
    and attrs: "group_attrs grp =
      setdefault ''callback'' PassContextGroupCallback
        (setdefault ''params'' (Params (DEFAULT_PARAMS parser)) attrs)"
    by blast
  have "map_of (group_attrs grp) ''params'' =
      (case map_of attrs ''params'' of
         Some given \<Rightarrow> Some given
       | None \<Rightarrow> Some (Params (DEFAULT_PARAMS parser)))"
    by (simp add: attrs map_of_setdefault_other map_of_setdefault)
  then have "(map_of attrs ''params'' = None \<longrightarrow>
         group_params grp = Some (DEFAULT_PARAMS parser)) \<and>
      (\<forall>ps. map_of attrs ''params'' = Some (Params ps) \<longrightarrow> group_params grp = Some ps)"
    by (simp add: group_params_def)
  with grp show ?thesis
    by (auto simp add: DEFAULT_PARAMS_def)
qed


theorem group_default_params_witness:
  "\<exists>grp. DeviceGroup_init (\<lambda>s. Inr ())
       \<lparr>cls_name = ''Vacuum'',
        cls_namespace = [(''_device_group_commands'', CommandTable ([] :: (string \<times> nat command) list)),
                         (''get_device_group'', DefaultGetDeviceGroup)]\<rparr>
       None default_multi_command_args (NoResultCallback :: unit result_callback) True [] =
       Inr grp \<and>
     group_params grp =
       Some [\<lparr>param_decls = [''--ip''], required = True, callback = validate_ip (\<lambda>s. Inr ())\<rparr>,
             \<lparr>param_decls = [''--token''], required = True, callback = validate_token\<rparr>]"
proof -
  let ?cls = "\<lparr>cls_name = ''Vacuum'',
      cls_namespace = [(''_device_group_commands'', CommandTable ([] :: (string \<times> nat command) list)),
                       (''get_device_group'', DefaultGetDeviceGroup)]\<rparr>"
  have carried: "getattr_device_group_commands ?cls \<noteq> NoneObj"
    by (simp add: getattr_device_group_commands_def)
  from group_default_params [OF carried, of "\<lambda>s. Inr ()" None default_multi_command_args
      "NoResultCallback :: unit result_callback" True "[]"]
  obtain grp where made: "DeviceGroup_init (\<lambda>s. Inr ()) ?cls None default_multi_command_args
      (NoResultCallback :: unit result_callback) True [] = Inr grp"
    and defaults: "map_of ([] :: (string \<times> unit group_attr) list) ''params'' = None \<longrightarrow>
      group_params grp =
        Some [\<lparr>param_decls = [''--ip''], required = True, callback = validate_ip (\<lambda>s. Inr ())\<rparr>,
              \<lparr>param_decls = [''--token''], required = True, callback = validate_token\<rparr>]"
    by (elim exE conjE)
  from defaults have "group_params grp =
      Some [\<lparr>param_decls = [''--ip''], required = True, callback = validate_ip (\<lambda>s. Inr ())\<rparr>,
            \<lparr>param_decls = [''--token''], required = True, callback = validate_token\<rparr>]"
    by simp
  with made show ?thesis
    by (intro exI conjI)
qed

text \<open>
  The claim fails on the code twice. The default option for the address is named
  \<^verbatim>\<open>--ip\<close>: no default parameter is named \<^verbatim>\<open>--address\<close>. And a group made with a
  \<^verbatim>\<open>params\<close> attribute has the caller's parameters only: \<^verbatim>\<open>setdefault\<close> leaves them as
  they are, so that neither \<^verbatim>\<open>--ip\<close> nor \<^verbatim>\<open>--token\<close> is among them.
\<close>

theorem group_default_params_counterexample:
  "(\<exists>grp ps. DeviceGroup_init (\<lambda>s. Inr ())
       \<lparr>cls_name = ''Vacuum'',
        cls_namespace = [(''_device_group_commands'', CommandTable ([] :: (string \<times> nat command) list)),
                         (''get_device_group'', DefaultGetDeviceGroup)]\<rparr>
       None default_multi_command_args (NoResultCallback :: unit result_callback) True [] =
       Inr grp \<and>
     group_params grp = Some ps \<and> map param_decls ps = [[''--ip''], [''--token'']] \<and>
     ''--address'' \<notin> set (concat (map param_decls ps))) \<and>
   (\<exists>grp. DeviceGroup_init (\<lambda>s. Inr ())
       \<lparr>cls_name = ''Vacuum'',
        cls_namespace = [(''_device_group_commands'', CommandTable ([] :: (string \<times> nat command) list)),
                         (''get_device_group'', DefaultGetDeviceGroup)]\<rparr>
       None default_multi_command_args (NoResultCallback :: unit result_callback) True
       [(''params'', Params [\<lparr>param_decls = [''--model''], required = False,
                              callback = (\<lambda>ctx param v. Inr v)\<rparr>])] =
       Inr grp \<and>
     group_params grp =
       Some [\<lparr>param_decls = [''--model''], required = False, callback = (\<lambda>ctx param v. Inr v)\<rparr>])"
proof -
  let ?cls = "\<lparr>cls_name = ''Vacuum'',
      cls_namespace = [(''_device_group_commands'', CommandTable ([] :: (string \<times> nat command) list)),
                       (''get_device_group'', DefaultGetDeviceGroup)]\<rparr>"
  let ?extra = "\<lparr>param_decls = [''--model''], required = False,
      callback = (\<lambda>ctx param v. Inr v)\<rparr>"
  have carried: "getattr_device_group_commands ?cls \<noteq> NoneObj"
    by (simp add: getattr_device_group_commands_def)
  from DeviceGroup_init_registered [OF carried, of "\<lambda>s. Inr ()" None default_multi_command_args
      "NoResultCallback :: unit result_callback" True "[]"]
  obtain g1 where g1: "DeviceGroup_init (\<lambda>s. Inr ()) ?cls None default_multi_command_args
      (NoResultCallback :: unit result_callback) True [] = Inr g1"
    and a1: "group_attrs g1 =
      setdefault ''callback'' PassContextGroupCallback
        (setdefault ''params'' (Params (DEFAULT_PARAMS (\<lambda>s. Inr ()))) [])"
    by (elim exE conjE)
  from a1 have p1: "group_params g1 = Some (DEFAULT_PARAMS (\<lambda>s. Inr ()))"
    by (simp add: group_params_def setdefault_def)
  have d1: "map param_decls (DEFAULT_PARAMS (\<lambda>s. Inr ())) = [[''--ip''], [''--token'']]"
    by (simp add: DEFAULT_PARAMS_def)
  then have n1: "''--address'' \<notin> set (concat (map param_decls (DEFAULT_PARAMS (\<lambda>s. Inr ()))))"
    by simp
  from DeviceGroup_init_registered [OF carried, of "\<lambda>s. Inr ()" None default_multi_command_args
      "NoResultCallback :: unit result_callback" True "[(''params'', Params [?extra])]"]
  obtain g2 where g2: "DeviceGroup_init (\<lambda>s. Inr ()) ?cls None default_multi_command_args
      (NoResultCallback :: unit result_callback) True [(''params'', Params [?extra])] = Inr g2"
    and a2: "group_attrs g2 =
      setdefault ''callback'' PassContextGroupCallback
        (setdefault ''params'' (Params (DEFAULT_PARAMS (\<lambda>s. Inr ())))
           [(''params'', Params [?extra])])"
    by (elim exE conjE)
  from a2 have p2: "group_params g2 = Some [?extra]"
    by (simp add: group_params_def setdefault_def)
  from g1 p1 d1 n1 have first: "\<exists>grp ps. DeviceGroup_init (\<lambda>s. Inr ()) ?cls None
      default_multi_command_args (NoResultCallback :: unit result_callback) True [] = Inr grp \<and>
     group_params grp = Some ps \<and> map param_decls ps = [[''--ip''], [''--token'']] \<and>
     ''--address'' \<notin> set (concat (map param_decls ps))"
    by (intro exI conjI)
  from g2 p2 have second: "\<exists>grp. DeviceGroup_init (\<lambda>s. Inr ()) ?cls None
      default_multi_command_args (NoResultCallback :: unit result_callback) True
      [(''params'', Params [?extra])] = Inr grp \<and> group_params grp = Some [?extra]"
    by (intro exI conjI)
  from first second show ?thesis
    by (rule conjI)
qed

text \<open>
  C9. A class without a command table (the attribute is missing, or is \<^verbatim>\<open>None\<close>) makes
  no group: the constructor raises \<^verbatim>\<open>RuntimeError\<close> at once, and so does the default
  factory. The exception handler of this module does not catch it: an invocation that
  raises it leaves the handler with it, nothing printed and nothing logged by the handler.
\<close>

theorem unregistered_class_is_fatal:
  assumes "getattr_device_group_commands cls = NoneObj"
  shows "\<exists>msg.
      DeviceGroup_init parser cls gname args rcb pass attrs = Inl (Raise RuntimeError msg) \<and>
      get_device_group parser cls =
        (Inl (Raise RuntimeError msg) :: py_exception + ('f, 'cb) device_group) \<and>
      (main a w = (Inl (Raise RuntimeError msg), w') \<longrightarrow>
         ExceptionHandlerGroup_call main a w = (Inl (Raise RuntimeError msg), w'))"
  using assms
  by (simp add: DeviceGroup_init_def get_device_group_def Let_def ExceptionHandlerGroup_call_def)

theorem unregistered_class_is_fatal_witness:
  "\<exists>msg.
     ExceptionHandlerGroup_call
       (\<lambda>args w.
          (case DeviceGroup_init (\<lambda>s. Inr ())
              \<lparr>cls_name = ''Plain'',
               cls_namespace = [(''status'', Obj True (None :: nat command option))]\<rparr>
              None default_multi_command_args (NoResultCallback :: unit result_callback) True [] of
             Inl ex \<Rightarrow> Inl ex
           | Inr grp \<Rightarrow> Inr PyNone, w))
       () \<lparr>echoed = [], logged = []\<rparr> =
       (Inl (Raise RuntimeError msg), \<lparr>echoed = [], logged = []\<rparr>)"
proof -
  let ?cls = "\<lparr>cls_name = ''Plain'',
      cls_namespace = [(''status'', Obj True (None :: nat command option))]\<rparr>"
  let ?main = "\<lambda>args w.
      (case DeviceGroup_init (\<lambda>s. Inr ()) ?cls None default_multi_command_args
          (NoResultCallback :: unit result_callback) True [] of
         Inl ex \<Rightarrow> Inl ex
       | Inr grp \<Rightarrow> Inr PyNone, w)"
  let ?w = "\<lparr>echoed = [], logged = []\<rparr>"
  have missing: "getattr_device_group_commands ?cls = NoneObj"
    by (simp add: getattr_device_group_commands_def)
  from unregistered_class_is_fatal [OF missing, of "\<lambda>s. Inr ()" None default_multi_command_args
      "NoResultCallback :: unit result_callback" True "[]" ?main "()" ?w ?w]
  obtain msg where raised: "DeviceGroup_init (\<lambda>s. Inr ()) ?cls None default_multi_command_args
      (NoResultCallback :: unit result_callback) True [] = Inl (Raise RuntimeError msg)"
    and passed: "?main () ?w = (Inl (Raise RuntimeError msg), ?w) \<longrightarrow>
      ExceptionHandlerGroup_call ?main () ?w = (Inl (Raise RuntimeError msg), ?w)"
    by (elim exE conjE)
  from raised have "?main () ?w = (Inl (Raise RuntimeError msg), ?w)"
    by simp
  with passed have "ExceptionHandlerGroup_call ?main () ?w = (Inl (Raise RuntimeError msg), ?w)"
    by (rule mp)
  then show ?thesis
    by (rule exI)
qed

end
